theory Spec2Isabelle
  imports Main "HOL-Library.Word"
begin

section \<open>The PointsSwap\_FHE contract\<close>

text \<open>
  A shallow embedding of \<^verbatim>\<open>contracts/PointsSwap_FHE.sol\<close>. The storage of the contract is
  a record; every external function is a HOL function from the storage before the call
  to either the revert reason or the storage after the call. The caller
  (\<^verbatim>\<open>msg.sender\<close>) and the block time (\<^verbatim>\<open>block.timestamp\<close>) are explicit arguments.
\<close>

subsection \<open>Solidity value types\<close>

type_synonym address = "160 word"
type_synonym uint32 = "32 word"
type_synonym uint256 = "256 word"

subsection \<open>Encrypted integers\<close>

text \<open>
  Modelled from the spec: the library \<^verbatim>\<open>@fhevm/solidity/lib/FHE.sol\<close> that the contract
  imports is not among the sources. Section 9 of the specification asks for an opaque
  confidential value with \<open>add\<close>, \<open>sub\<close> and \<open>mul\<close>, backed in tests by a transparent
  wrapper around the plaintext; that wrapper is the model here. An \<^verbatim>\<open>euint32\<close> is either
  the zero handle of a storage slot that was never written (\<open>Uninitialized\<close>) or a
  ciphertext of a 32-bit value. Arithmetic is the arithmetic of \<^verbatim>\<open>uint32\<close> and wraps;
  an uninitialised operand counts as an encryption of zero.
\<close>

datatype euint32 = Uninitialized | Cipher uint32

fun decrypt :: "euint32 \<Rightarrow> uint32" where
  "decrypt Uninitialized = 0"
| "decrypt (Cipher w) = w"

fun FHE_isInitialized :: "euint32 \<Rightarrow> bool" where
  "FHE_isInitialized Uninitialized = False"
| "FHE_isInitialized (Cipher w) = True"

definition FHE_fromU32 :: "uint32 \<Rightarrow> euint32" where
  "FHE_fromU32 w = Cipher w"

definition FHE_add :: "euint32 \<Rightarrow> euint32 \<Rightarrow> euint32" where
  "FHE_add a b = Cipher (decrypt a + decrypt b)"

definition FHE_sub :: "euint32 \<Rightarrow> euint32 \<Rightarrow> euint32" where
  "FHE_sub a b = Cipher (decrypt a - decrypt b)"

definition FHE_mul :: "euint32 \<Rightarrow> euint32 \<Rightarrow> euint32" where
  "FHE_mul a b = Cipher (decrypt a * decrypt b)"

text \<open>
  \<^verbatim>\<open>FHE.fromExternal(handle, proof)\<close> checks the proof that comes with an encrypted input.
  It is a parameter of the functions that call it, of type
  \<open>'e \<Rightarrow> 'p \<Rightarrow> euint32 option\<close>: \<open>None\<close> when the provider itself rejects the input and
  reverts, otherwise the handle the contract goes on with. The theorems below hold for
  every such provider. The source calls it twice on the same arguments, once in the
  \<^verbatim>\<open>require\<close> and once for the value it stores; the model takes both calls to give the
  same handle. \<open>mock_fromExternal\<close> is the transparent provider used where a run
  needs a concrete one: the external handle is the plaintext and the proof is a flag.
  \<^verbatim>\<open>FHE.allowThis\<close> and \<^verbatim>\<open>FHE.makePubliclyDecryptable\<close> record permissions with the
  provider and write nothing to the storage of the contract; they have no counterpart
  here.
\<close>

definition mock_fromExternal :: "uint32 \<Rightarrow> bool \<Rightarrow> euint32 option" where
  "mock_fromExternal x ok = (if ok then Some (Cipher x) else None)"

subsection \<open>Storage\<close>

record ExchangeRate =
  encryptedRate :: euint32
  publicRate :: uint32
  lastUpdated :: uint256

record LoyaltyAccount =
  encryptedPoints :: euint32
  publicPoints :: uint32
  lastUpdated :: uint256
  isActive :: bool

datatype event =
  AccountCreated address uint32
| PointsConverted address string string uint32
| ExchangeRateUpdated string uint32

text \<open>
  A Solidity mapping has a value at every key, the zero value where nothing was stored;
  so the mappings are total functions. A mapping with string keys finds its slot by
  the hash of the key's bytes; the model takes the hash to be injective and uses the
  string itself as the key. \<open>emitted\<close> is the event log of the contract, oldest event
  first.
\<close>

record contract =
  accounts :: "address \<Rightarrow> LoyaltyAccount"
  exchangeRates :: "string \<Rightarrow> ExchangeRate"
  supportedBrands :: "string \<Rightarrow> bool"
  owner :: address
  brandList :: "string list"
  emitted :: "event list"

definition zeroAccount :: LoyaltyAccount where
  "zeroAccount =
     \<lparr>encryptedPoints = Uninitialized, publicPoints = 0,
      LoyaltyAccount.lastUpdated = 0, isActive = False\<rparr>"

definition zeroRate :: ExchangeRate where
  "zeroRate =
     \<lparr>encryptedRate = Uninitialized, publicRate = 0, ExchangeRate.lastUpdated = 0\<rparr>"

text \<open>The constructor: the deployer becomes the owner, everything else is zero.\<close>

definition constructor :: "address \<Rightarrow> contract" where
  "constructor sender =
     \<lparr>accounts = (\<lambda>_. zeroAccount), exchangeRates = (\<lambda>_. zeroRate),
      supportedBrands = (\<lambda>_. False), owner = sender, brandList = [], emitted = []\<rparr>"

subsection \<open>Reverts\<close>

text \<open>
  One constructor for each \<^verbatim>\<open>require\<close> message of the contract; \<open>reason\<close> gives the
  message. \<open>InputRejected\<close> stands for a revert inside \<^verbatim>\<open>FHE.fromExternal\<close>.
\<close>

datatype error =
  NotAuthorized
| AccountAlreadyExists
| InvalidEncryptedInput
| BrandAlreadySupported
| BrandPairNotSupported
| InvalidEncryptedRate
| AccountInactive
| UnsupportedBrand
| InvalidAmount
| ExchangeRateNotSet
| AccountNotFound
| RateNotFound
| AccountNotActive
| InvalidAddress
| InputRejected

fun reason :: "error \<Rightarrow> string" where
  "reason NotAuthorized = ''Not authorized''"
| "reason AccountAlreadyExists = ''Account already exists''"
| "reason InvalidEncryptedInput = ''Invalid encrypted input''"
| "reason BrandAlreadySupported = ''Brand already supported''"
| "reason BrandPairNotSupported = ''Brand pair not supported''"
| "reason InvalidEncryptedRate = ''Invalid encrypted rate''"
| "reason AccountInactive = ''Account inactive''"
| "reason UnsupportedBrand = ''Unsupported brand''"
| "reason InvalidAmount = ''Invalid amount''"
| "reason ExchangeRateNotSet = ''Exchange rate not set''"
| "reason AccountNotFound = ''Account not found''"
| "reason RateNotFound = ''Rate not found''"
| "reason AccountNotActive = ''Account not active''"
| "reason InvalidAddress = ''Invalid address''"
| "reason InputRejected = ''''"

text \<open>
  A call that reverts leaves the storage as it was before the call: \<open>storage_after s r\<close>
  is the storage once a call with result \<open>r\<close>, started in \<open>s\<close>, is over. In the
  contract every \<^verbatim>\<open>require\<close> of a function comes before its first write, so a revert
  has nothing to undo; the functions below show it, each \<open>Inl\<close> standing before the
  updated storage is built.
\<close>

definition storage_after :: "contract \<Rightarrow> error + contract \<Rightarrow> contract" where
  "storage_after s r = (case r of Inl e \<Rightarrow> s | Inr s' \<Rightarrow> s')"

text \<open>Calls in sequence: the next call runs in the storage the previous one left.\<close>

definition then_call ::
  "error + contract \<Rightarrow> (contract \<Rightarrow> error + contract) \<Rightarrow> error + contract" where
  "then_call r f = (case r of Inl e \<Rightarrow> Inl e | Inr s \<Rightarrow> f s)"

subsection \<open>External functions\<close>

definition createAccount ::
  "('e \<Rightarrow> 'p \<Rightarrow> euint32 option) \<Rightarrow> address \<Rightarrow> uint256 \<Rightarrow> 'e \<Rightarrow> 'p \<Rightarrow> uint32 \<Rightarrow>
   contract \<Rightarrow> error + contract" where
  "createAccount fromExternal sender now encPoints inputProof pubPoints s =
     (if publicPoints (accounts s sender) \<noteq> 0 then Inl AccountAlreadyExists
      else case fromExternal encPoints inputProof of
        None \<Rightarrow> Inl InputRejected
      | Some h \<Rightarrow>
          if \<not> FHE_isInitialized h then Inl InvalidEncryptedInput
          else Inr (s\<lparr>accounts := (accounts s)(sender :=
                       \<lparr>encryptedPoints = h, publicPoints = pubPoints,
                        LoyaltyAccount.lastUpdated = now, isActive = True\<rparr>),
                     emitted := emitted s @ [AccountCreated sender pubPoints]\<rparr>))"

definition addSupportedBrand :: "address \<Rightarrow> string \<Rightarrow> contract \<Rightarrow> error + contract" where
  "addSupportedBrand sender brandId s =
     (if sender \<noteq> owner s then Inl NotAuthorized
      else if supportedBrands s brandId then Inl BrandAlreadySupported
      else Inr (s\<lparr>supportedBrands := (supportedBrands s)(brandId := True),
                 brandList := brandList s @ [brandId]\<rparr>))"

definition setExchangeRate ::
  "('e \<Rightarrow> 'p \<Rightarrow> euint32 option) \<Rightarrow> address \<Rightarrow> uint256 \<Rightarrow> string \<Rightarrow> 'e \<Rightarrow> 'p \<Rightarrow> uint32 \<Rightarrow>
   contract \<Rightarrow> error + contract" where
  "setExchangeRate fromExternal sender now brandPair encRate rateProof pubRate s =
     (if sender \<noteq> owner s then Inl NotAuthorized
      else if \<not> supportedBrands s brandPair then Inl BrandPairNotSupported
      else case fromExternal encRate rateProof of
        None \<Rightarrow> Inl InputRejected
      | Some h \<Rightarrow>
          if \<not> FHE_isInitialized h then Inl InvalidEncryptedRate
          else Inr (s\<lparr>exchangeRates := (exchangeRates s)(brandPair :=
                       \<lparr>encryptedRate = h, publicRate = pubRate,
                        ExchangeRate.lastUpdated = now\<rparr>),
                     emitted := emitted s @ [ExchangeRateUpdated brandPair pubRate]\<rparr>))"

text \<open>
  The key of a rate, \<^verbatim>\<open>string(abi.encodePacked(fromBrand, "-", toBrand))\<close>: the bytes of
  the two identifiers with a hyphen between them.
\<close>

definition brandPairKey :: "string \<Rightarrow> string \<Rightarrow> string" where
  "brandPairKey fromBrand toBrand = fromBrand @ ''-'' @ toBrand"

definition convertPoints ::
  "address \<Rightarrow> uint256 \<Rightarrow> string \<Rightarrow> string \<Rightarrow> uint32 \<Rightarrow> contract \<Rightarrow> error + contract" where
  "convertPoints sender now fromBrand toBrand amount s =
     (if \<not> isActive (accounts s sender) then Inl AccountInactive
      else if \<not> (supportedBrands s fromBrand \<and> supportedBrands s toBrand)
        then Inl UnsupportedBrand
      else if \<not> 0 < amount then Inl InvalidAmount
      else
        let brandPair = brandPairKey fromBrand toBrand in
        if \<not> 0 < publicRate (exchangeRates s brandPair) then Inl ExchangeRateNotSet
        else
          let convertedAmount =
                FHE_mul (FHE_fromU32 amount) (encryptedRate (exchangeRates s brandPair));
              a1 = (accounts s sender)\<lparr>encryptedPoints :=
                     FHE_sub (encryptedPoints (accounts s sender)) (FHE_fromU32 amount)\<rparr>;
              a2 = a1\<lparr>LoyaltyAccount.lastUpdated := now\<rparr>;
              newTargetBalance = convertedAmount;
              a3 = a2\<lparr>encryptedPoints := FHE_add (encryptedPoints a2) newTargetBalance\<rparr>
          in Inr (s\<lparr>accounts := (accounts s)(sender := a3),
                    emitted := emitted s @
                      [PointsConverted sender fromBrand toBrand amount]\<rparr>))"

definition getAccountBalance :: "address \<Rightarrow> contract \<Rightarrow> error + euint32 \<times> uint32" where
  "getAccountBalance user s =
     (if \<not> isActive (accounts s user) then Inl AccountNotFound
      else Inr (encryptedPoints (accounts s user), publicPoints (accounts s user)))"

definition getExchangeRate :: "string \<Rightarrow> contract \<Rightarrow> error + euint32 \<times> uint32" where
  "getExchangeRate brandPair s =
     (if \<not> 0 < publicRate (exchangeRates s brandPair) then Inl RateNotFound
      else Inr (encryptedRate (exchangeRates s brandPair),
                publicRate (exchangeRates s brandPair)))"

definition getSupportedBrands :: "contract \<Rightarrow> string list" where
  "getSupportedBrands s = brandList s"

definition deactivateAccount :: "address \<Rightarrow> contract \<Rightarrow> error + contract" where
  "deactivateAccount sender s =
     (if \<not> isActive (accounts s sender) then Inl AccountNotActive
      else Inr (s\<lparr>accounts := (accounts s)(sender :=
                   (accounts s sender)\<lparr>isActive := False\<rparr>)\<rparr>))"

definition updatePublicPoints :: "address \<Rightarrow> uint256 \<Rightarrow> uint32 \<Rightarrow> contract \<Rightarrow> error + contract" where
  "updatePublicPoints sender now newPoints s =
     (if \<not> isActive (accounts s sender) then Inl AccountNotActive
      else Inr (s\<lparr>accounts := (accounts s)(sender :=
                   (accounts s sender)\<lparr>publicPoints := newPoints,
                                         LoyaltyAccount.lastUpdated := now\<rparr>)\<rparr>))"

definition transferOwnership :: "address \<Rightarrow> address \<Rightarrow> contract \<Rightarrow> error + contract" where
  "transferOwnership sender newOwner s =
     (if sender \<noteq> owner s then Inl NotAuthorized
      else if newOwner = 0 then Inl InvalidAddress
      else Inr (s\<lparr>owner := newOwner\<rparr>))"

definition isContractAvailable :: bool where
  "isContractAvailable = True"

subsection \<open>Storages of example runs\<close>

text \<open>
  The storages below are written out field by field; the lemmas of the next section show
  which calls reach them from the constructor. The deployer and owner is the address 9,
  the account holder the address 1.
\<close>

definition acct100 :: LoyaltyAccount where
  "acct100 =
     \<lparr>encryptedPoints = Cipher 100, publicPoints = 100,
      LoyaltyAccount.lastUpdated = 20, isActive = True\<rparr>"

definition rate2 :: ExchangeRate where
  "rate2 = \<lparr>encryptedRate = Cipher 2, publicRate = 2, ExchangeRate.lastUpdated = 40\<rparr>"

text \<open>After the holder created an account with balance 100 and mirror 100.\<close>

definition s_account :: contract where
  "s_account =
     \<lparr>accounts = (\<lambda>_. zeroAccount)(1 := acct100), exchangeRates = (\<lambda>_. zeroRate),
      supportedBrands = (\<lambda>_. False), owner = 9, brandList = [],
      emitted = [AccountCreated 1 100]\<rparr>"

text \<open>After the owner then registered the brands \<open>A\<close> and \<open>B\<close>.\<close>

definition s_brands :: contract where
  "s_brands =
     s_account\<lparr>supportedBrands := (\<lambda>_. False)(''A'' := True, ''B'' := True),
               brandList := [''A'', ''B'']\<rparr>"

text \<open>
  After the owner then registered \<open>A-B\<close> as a brand as well and set the rate of \<open>A-B\<close>
  to 2.
\<close>

definition s_rate :: contract where
  "s_rate =
     s_brands\<lparr>supportedBrands :=
                 (\<lambda>_. False)(''A'' := True, ''B'' := True, ''A-B'' := True),
              brandList := [''A'', ''B'', ''A-B''],
              exchangeRates := (\<lambda>_. zeroRate)(''A-B'' := rate2),
              emitted := [AccountCreated 1 100, ExchangeRateUpdated ''A-B'' 2]\<rparr>"

text \<open>
  After the account was created, with only \<open>A-B\<close> registered as a brand and its rate
  set to 2: neither \<open>A\<close> nor \<open>B\<close> is registered.
\<close>

definition s_pair_only :: contract where
  "s_pair_only =
     s_account\<lparr>supportedBrands := (\<lambda>_. False)(''A-B'' := True),
               brandList := [''A-B''],
               exchangeRates := (\<lambda>_. zeroRate)(''A-B'' := rate2),
               emitted := [AccountCreated 1 100, ExchangeRateUpdated ''A-B'' 2]\<rparr>"

text \<open>After the holder, in \<open>s_rate\<close>, converted 50 points from \<open>A\<close> to \<open>B\<close> at time 50.\<close>

definition s_converted :: contract where
  "s_converted =
     s_rate\<lparr>accounts := (\<lambda>_. zeroAccount)(1 :=
                 \<lparr>encryptedPoints = Cipher 150, publicPoints = 100,
                  LoyaltyAccount.lastUpdated = 50, isActive = True\<rparr>),
            emitted := [AccountCreated 1 100, ExchangeRateUpdated ''A-B'' 2,
                        PointsConverted 1 ''A'' ''B'' 50]\<rparr>"

text \<open>After the holder, in \<open>s_account\<close>, deactivated the account.\<close>

definition s_deactivated :: contract where
  "s_deactivated =
     s_account\<lparr>accounts := (\<lambda>_. zeroAccount)(1 :=
                 \<lparr>encryptedPoints = Cipher 100, publicPoints = 100,
                  LoyaltyAccount.lastUpdated = 20, isActive = False\<rparr>)\<rparr>"

text \<open>
  After the holder created an account with balance 100 and mirror 0, and after a second
  \<open>createAccount\<close> of the same holder with balance 7 and mirror 5.
\<close>

definition s_zero_mirror :: contract where
  "s_zero_mirror =
     \<lparr>accounts = (\<lambda>_. zeroAccount)(1 :=
         \<lparr>encryptedPoints = Cipher 100, publicPoints = 0,
          LoyaltyAccount.lastUpdated = 20, isActive = True\<rparr>),
      exchangeRates = (\<lambda>_. zeroRate), supportedBrands = (\<lambda>_. False), owner = 9,
      brandList = [], emitted = [AccountCreated 1 0]\<rparr>"

definition s_overwritten :: contract where
  "s_overwritten =
     s_zero_mirror\<lparr>accounts := (\<lambda>_. zeroAccount)(1 :=
         \<lparr>encryptedPoints = Cipher 7, publicPoints = 5,
          LoyaltyAccount.lastUpdated = 21, isActive = True\<rparr>),
      emitted := [AccountCreated 1 0, AccountCreated 1 5]\<rparr>"

section \<open>The decryption bridge\<close>

text \<open>
  Modelled from the spec: the contract function \<^verbatim>\<open>verifyDecryption\<close> and the record it
  keeps are not among the sources; only a caller in the web front end is. The model
  follows sections 3 and 4.6 of the specification. A record holds the handles asked
  for, the requester, its state and, once verified, the cleartext values. The check of
  a decryption proof by the trusted verifier of the deployment is a parameter
  \<open>verifier handles values proof\<close>.
\<close>

datatype record_state = Unverified | PendingProof | Verified

record ('h, 'v) DecryptionRecord =
  handles :: "'h list"
  requester :: address
  state :: record_state
  cleartext :: "'v list"

type_synonym ('h, 'v) bridge = "nat \<Rightarrow> ('h, 'v) DecryptionRecord"

datatype bridge_error = InvalidDecryptionProof

text \<open>
  Requesting decryption exposes the handles to the external process; the record waits
  for a proof. A verified record is left as it is.
\<close>

definition requestDecryption ::
  "nat \<Rightarrow> address \<Rightarrow> 'h list \<Rightarrow> ('h, 'v) bridge \<Rightarrow> ('h, 'v) bridge" where
  "requestDecryption recordId sender hs b =
     (if state (b recordId) = Verified then b
      else b(recordId := (b recordId)\<lparr>handles := hs, requester := sender,
                                         state := PendingProof\<rparr>))"

text \<open>
  Verification: a verified record answers with its stored values and nothing is checked
  or written; otherwise a valid proof stores the values for good, and an invalid one
  fails and leaves the record as it was.
\<close>

definition verifyDecryption ::
  "('h list \<Rightarrow> 'v list \<Rightarrow> 'p \<Rightarrow> bool) \<Rightarrow> nat \<Rightarrow> 'v list \<Rightarrow> 'p \<Rightarrow> ('h, 'v) bridge \<Rightarrow>
   bridge_error + 'v list \<times> ('h, 'v) bridge" where
  "verifyDecryption verifier recordId vals proof b =
     (if state (b recordId) = Verified then Inr (cleartext (b recordId), b)
      else if verifier (handles (b recordId)) vals proof
        then Inr (vals, b(recordId := (b recordId)\<lparr>state := Verified, cleartext := vals\<rparr>))
      else Inl InvalidDecryptionProof)"

text \<open>The operations of the bridge, and the bridge after a sequence of them.\<close>

datatype ('h, 'v, 'p) bridge_op =
  Request nat address "'h list"
| Verify nat "'v list" 'p

fun bridge_step ::
  "('h list \<Rightarrow> 'v list \<Rightarrow> 'p \<Rightarrow> bool) \<Rightarrow> ('h, 'v, 'p) bridge_op \<Rightarrow> ('h, 'v) bridge \<Rightarrow>
   ('h, 'v) bridge" where
  "bridge_step verifier (Request recordId sender hs) b = requestDecryption recordId sender hs b"
| "bridge_step verifier (Verify recordId vals proof) b =
     (case verifyDecryption verifier recordId vals proof b of
        Inl e \<Rightarrow> b
      | Inr (vs, b') \<Rightarrow> b')"

fun bridge_run ::
  "('h list \<Rightarrow> 'v list \<Rightarrow> 'p \<Rightarrow> bool) \<Rightarrow> ('h, 'v, 'p) bridge_op list \<Rightarrow> ('h, 'v) bridge \<Rightarrow>
   ('h, 'v) bridge" where
  "bridge_run verifier [] b = b"
| "bridge_run verifier (x # xs) b = bridge_run verifier xs (bridge_step verifier x b)"

text \<open>
  A bridge for example runs: no record is known at first, and the verifier accepts a
  proof exactly when it is the flag \<open>True\<close> and the values are the handles' plaintexts.
\<close>

definition no_records :: "(euint32, uint32) bridge" where
  "no_records = (\<lambda>_. \<lparr>handles = [], requester = 0, state = Unverified, cleartext = []\<rparr>)"

definition mock_verifier :: "euint32 list \<Rightarrow> uint32 list \<Rightarrow> bool \<Rightarrow> bool" where
  "mock_verifier hs vals ok = (ok \<and> vals = map decrypt hs)"

text \<open>The bridge after record 0 was requested for the handle of 150 and verified.\<close>

definition verified_bridge :: "(euint32, uint32) bridge" where
  "verified_bridge =
     no_records(0 := \<lparr>handles = [Cipher 150], requester = 1, state = Verified,
                       cleartext = [150]\<rparr>)"

section \<open>The example storages are reachable\<close>

lemma reach_s_account:
  "createAccount mock_fromExternal 1 20 100 True 100 (constructor 9) = Inr s_account"
  by (simp add: createAccount_def mock_fromExternal_def constructor_def s_account_def
      acct100_def zeroAccount_def)

lemma reach_s_brands:
  "then_call (addSupportedBrand 9 ''A'' s_account) (addSupportedBrand 9 ''B'') = Inr s_brands"
  by (simp add: then_call_def addSupportedBrand_def s_brands_def s_account_def)

lemma reach_s_rate:
  "then_call (addSupportedBrand 9 ''A-B'' s_brands)
     (setExchangeRate mock_fromExternal 9 40 ''A-B'' 2 True 2) = Inr s_rate"
  by (simp add: then_call_def addSupportedBrand_def setExchangeRate_def mock_fromExternal_def
      s_rate_def s_brands_def s_account_def rate2_def)

lemma reach_s_pair_only:
  "then_call (addSupportedBrand 9 ''A-B'' s_account)
     (setExchangeRate mock_fromExternal 9 40 ''A-B'' 2 True 2) = Inr s_pair_only"
  by (simp add: then_call_def addSupportedBrand_def setExchangeRate_def mock_fromExternal_def
      s_pair_only_def s_account_def rate2_def)

lemma reach_s_converted:
  "convertPoints 1 50 ''A'' ''B'' 50 s_rate = Inr s_converted"
  by (simp add: convertPoints_def brandPairKey_def s_converted_def s_rate_def s_brands_def
      s_account_def acct100_def rate2_def FHE_add_def FHE_sub_def FHE_mul_def FHE_fromU32_def
      Let_def)

lemma reach_s_deactivated:
  "deactivateAccount 1 s_account = Inr s_deactivated"
  by (simp add: deactivateAccount_def s_deactivated_def s_account_def acct100_def)

lemma reach_verified_bridge:
  "bridge_run mock_verifier [Request 0 1 [Cipher 150], Verify 0 [150] True] no_records
     = verified_bridge"
  by (simp add: requestDecryption_def verifyDecryption_def mock_verifier_def no_records_def
      verified_bridge_def)

section \<open>Properties\<close>

subsection \<open>Account creation\<close>

text \<open>
  \<open>createAccount\<close> reverts with \<^verbatim>\<open>Account already exists\<close> exactly when the plaintext
  mirror of the caller's account is not zero: the mirror, not the record, is what the
  \<^verbatim>\<open>require\<close> looks at.
\<close>

lemma createAccount_exists_iff:
  "createAccount fromExternal sender now encPoints inputProof pubPoints s
     = Inl AccountAlreadyExists
   \<longleftrightarrow> publicPoints (accounts s sender) \<noteq> 0"
  by (simp add: createAccount_def split: option.splits)

text \<open>
  C1. The claim: for every owner \<open>createAccount\<close> succeeds at most once; when the owner
  has an account already, a second call fails with \<^verbatim>\<open>Account already exists\<close> and leaves
  the account as it is. The code does not do this for an account whose mirror is zero.
  The holder 1 creates an account with balance 100 and mirror 0; the account is active
  and holds the balance. A second \<open>createAccount\<close> by the same holder, with balance 7 and
  mirror 5, succeeds and overwrites the encrypted balance, the mirror and the timestamp.
\<close>

theorem createAccount_twice_zero_mirror:
  "createAccount mock_fromExternal 1 20 100 True 0 (constructor 9) = Inr s_zero_mirror
   \<and> isActive (accounts s_zero_mirror 1)
   \<and> encryptedPoints (accounts s_zero_mirror 1) = Cipher 100
   \<and> createAccount mock_fromExternal 1 21 7 True 5 s_zero_mirror = Inr s_overwritten
   \<and> encryptedPoints (accounts s_overwritten 1) = Cipher 7
   \<and> publicPoints (accounts s_overwritten 1) = 5
   \<and> LoyaltyAccount.lastUpdated (accounts s_overwritten 1) = 21"
  by (simp add: createAccount_def mock_fromExternal_def constructor_def zeroAccount_def
      s_zero_mirror_def s_overwritten_def)

subsection \<open>Setting a rate\<close>

text \<open>
  C2. The claim: \<open>setExchangeRate\<close> fails with \<^verbatim>\<open>Brand pair not supported\<close> unless the
  from-brand and the to-brand of the pair are both registered, so that a rate exists
  only for registered brands. The code looks the pair's own string up in the brand
  registry instead. With \<open>A-B\<close> registered as a brand and neither \<open>A\<close> nor \<open>B\<close>, the owner
  sets a rate for the pair of \<open>A\<close> and \<open>B\<close>; with \<open>A\<close> and \<open>B\<close> registered and \<open>A-B\<close>
  not, the same call reverts.
\<close>

theorem setExchangeRate_checks_pair_as_brand:
  "then_call (addSupportedBrand 9 ''A-B'' s_account)
     (setExchangeRate mock_fromExternal 9 40 (brandPairKey ''A'' ''B'') 2 True 2)
     = Inr s_pair_only
   \<and> exchangeRates s_pair_only (brandPairKey ''A'' ''B'') = rate2
   \<and> \<not> supportedBrands s_pair_only ''A''
   \<and> \<not> supportedBrands s_pair_only ''B''
   \<and> supportedBrands s_brands ''A''
   \<and> supportedBrands s_brands ''B''
   \<and> setExchangeRate mock_fromExternal 9 40 (brandPairKey ''A'' ''B'') 2 True 2 s_brands
       = Inl BrandPairNotSupported"
  by (simp add: then_call_def addSupportedBrand_def setExchangeRate_def mock_fromExternal_def
      brandPairKey_def s_pair_only_def s_brands_def s_account_def rate2_def)

subsection \<open>Conversion\<close>

text \<open>
  C3. A successful \<open>convertPoints\<close> of the amount \<open>a\<close> from one brand to another sets
  the single encrypted balance of the caller's account to \<open>(b - a) + a * r\<close>, where \<open>b\<close>
  is the balance before and \<open>r\<close> the encrypted rate stored for the pair. (A call
  succeeds only for an active account, registered brands, a positive amount and a
  configured rate.)
\<close>

theorem convertPoints_balance:
  assumes "convertPoints sender now fromBrand toBrand amount s = Inr s'"
  shows "encryptedPoints (accounts s' sender) =
           FHE_add (FHE_sub (encryptedPoints (accounts s sender)) (FHE_fromU32 amount))
             (FHE_mul (FHE_fromU32 amount)
                (encryptedRate (exchangeRates s (brandPairKey fromBrand toBrand))))
       \<and> decrypt (encryptedPoints (accounts s' sender)) =
           (decrypt (encryptedPoints (accounts s sender)) - amount)
           + amount * decrypt (encryptedRate (exchangeRates s (brandPairKey fromBrand toBrand)))"
  using assms
  by (auto simp add: convertPoints_def Let_def FHE_add_def FHE_sub_def FHE_mul_def
      FHE_fromU32_def split: if_splits)

text \<open>
  With balance 100, rate 2 and amount 50 the new balance decrypts to 150. The storage
  \<open>s_rate\<close> is the one reached by creating the account with 100, registering the brands
  and setting the rate to 2.
\<close>

theorem convertPoints_balance_witness:
  "convertPoints 1 50 ''A'' ''B'' 50 s_rate = Inr s_converted
   \<and> decrypt (encryptedPoints (accounts s_rate 1)) = 100
   \<and> decrypt (encryptedRate (exchangeRates s_rate (brandPairKey ''A'' ''B''))) = 2
   \<and> decrypt (encryptedPoints (accounts s_converted 1)) = 150"
proof -
  have h: "convertPoints 1 50 ''A'' ''B'' 50 s_rate = Inr s_converted"
    by (rule reach_s_converted)
  have b: "decrypt (encryptedPoints (accounts s_rate 1)) = 100"
    by (simp add: s_rate_def s_brands_def s_account_def acct100_def)
  have r: "decrypt (encryptedRate (exchangeRates s_rate (brandPairKey ''A'' ''B''))) = 2"
    by (simp add: s_rate_def brandPairKey_def rate2_def)
  from convertPoints_balance [OF h] b r
  have "decrypt (encryptedPoints (accounts s_converted 1)) = 150"
    by (simp add: FHE_add_def FHE_sub_def FHE_mul_def FHE_fromU32_def)
  with h b r show ?thesis by simp
qed

text \<open>
  C4. \<open>convertPoints\<close> checks, in this order, that the caller's account is active
  (\<^verbatim>\<open>Account inactive\<close>), that both brands are registered (\<^verbatim>\<open>Unsupported brand\<close>), that the
  amount is positive (\<^verbatim>\<open>Invalid amount\<close>) and that a rate is configured for the pair
  (\<^verbatim>\<open>Exchange rate not set\<close>). The first check that fails gives the revert reason,
  whatever the later ones would say; the call succeeds exactly when all four hold; and
  after a revert the storage is the storage before the call.
\<close>

theorem convertPoints_checks_in_order:
  assumes "r = convertPoints sender now fromBrand toBrand amount s"
  shows "(\<not> isActive (accounts s sender) \<longrightarrow> r = Inl AccountInactive)
       \<and> (isActive (accounts s sender)
            \<and> \<not> (supportedBrands s fromBrand \<and> supportedBrands s toBrand)
          \<longrightarrow> r = Inl UnsupportedBrand)
       \<and> (isActive (accounts s sender)
            \<and> supportedBrands s fromBrand \<and> supportedBrands s toBrand
            \<and> \<not> 0 < amount
          \<longrightarrow> r = Inl InvalidAmount)
       \<and> (isActive (accounts s sender)
            \<and> supportedBrands s fromBrand \<and> supportedBrands s toBrand
            \<and> 0 < amount
            \<and> \<not> 0 < publicRate (exchangeRates s (brandPairKey fromBrand toBrand))
          \<longrightarrow> r = Inl ExchangeRateNotSet)
       \<and> ((\<exists>s'. r = Inr s') =
            (isActive (accounts s sender)
             \<and> supportedBrands s fromBrand \<and> supportedBrands s toBrand
             \<and> 0 < amount
             \<and> 0 < publicRate (exchangeRates s (brandPairKey fromBrand toBrand))))
       \<and> (\<forall>e. r = Inl e \<longrightarrow> storage_after s r = s)"
  unfolding assms by (auto simp add: convertPoints_def storage_after_def Let_def)

text \<open>
  One run for each check. In the first, every check would fail; in the second, all but
  the first; in the third, the amount is zero and no rate is set; in the fourth only the
  rate is missing.
\<close>

theorem convertPoints_checks_in_order_witness:
  "convertPoints 1 50 ''A'' ''B'' 0 (constructor 9) = Inl AccountInactive
   \<and> convertPoints 1 50 ''A'' ''B'' 0 s_account = Inl UnsupportedBrand
   \<and> convertPoints 1 50 ''A'' ''B'' 0 s_brands = Inl InvalidAmount
   \<and> convertPoints 1 50 ''A'' ''B'' 50 s_brands = Inl ExchangeRateNotSet
   \<and> storage_after s_brands (convertPoints 1 50 ''A'' ''B'' 50 s_brands) = s_brands"
proof -
  have i: "\<not> isActive (accounts (constructor 9) 1)"
    by (simp add: constructor_def zeroAccount_def)
  have a: "isActive (accounts s_account 1)" "isActive (accounts s_brands 1)"
    by (simp_all add: s_brands_def s_account_def acct100_def)
  have u: "\<not> supportedBrands s_account ''A''"
    by (simp add: s_account_def)
  have b: "supportedBrands s_brands ''A''" "supportedBrands s_brands ''B''"
    by (simp_all add: s_brands_def)
  have n: "\<not> 0 < publicRate (exchangeRates s_brands (brandPairKey ''A'' ''B''))"
    by (simp add: s_brands_def s_account_def zeroRate_def)
  have z: "\<not> (0::uint32) < 0" and p: "(0::uint32) < 50"
    by simp_all
  from convertPoints_checks_in_order [where sender = 1 and now = 50 and fromBrand = "''A''"
      and toBrand = "''B''" and amount = 0 and s = "constructor 9", OF refl] i
  have 1: "convertPoints 1 50 ''A'' ''B'' 0 (constructor 9) = Inl AccountInactive"
    by blast
  from convertPoints_checks_in_order [where sender = 1 and now = 50 and fromBrand = "''A''"
      and toBrand = "''B''" and amount = 0 and s = s_account, OF refl] a u
  have 2: "convertPoints 1 50 ''A'' ''B'' 0 s_account = Inl UnsupportedBrand"
    by blast
  from convertPoints_checks_in_order [where sender = 1 and now = 50 and fromBrand = "''A''"
      and toBrand = "''B''" and amount = 0 and s = s_brands, OF refl] a b z
  have 3: "convertPoints 1 50 ''A'' ''B'' 0 s_brands = Inl InvalidAmount"
    by blast
  from convertPoints_checks_in_order [where sender = 1 and now = 50 and fromBrand = "''A''"
      and toBrand = "''B''" and amount = 50 and s = s_brands, OF refl] a b p n
  have 4: "convertPoints 1 50 ''A'' ''B'' 50 s_brands = Inl ExchangeRateNotSet"
    and 5: "storage_after s_brands (convertPoints 1 50 ''A'' ''B'' 50 s_brands) = s_brands"
    by blast+
  from 1 2 3 4 5 show ?thesis by blast
qed

text \<open>
  C9, as stated: for every active account and every positive amount with a configured
  rate the conversion succeeds. It does not when a brand of the pair is not registered:
  in \<open>s_pair_only\<close> the account is active, the amount 50 is positive and the rate of the
  pair of \<open>A\<close> and \<open>B\<close> is configured, and the call reverts with \<^verbatim>\<open>Unsupported brand\<close>.
\<close>

theorem convertPoints_unregistered_counterexample:
  "isActive (accounts s_pair_only 1)
   \<and> (0::uint32) < 50
   \<and> 0 < publicRate (exchangeRates s_pair_only (brandPairKey ''A'' ''B''))
   \<and> convertPoints 1 50 ''A'' ''B'' 50 s_pair_only = Inl UnsupportedBrand"
  by (simp add: convertPoints_def brandPairKey_def s_pair_only_def s_account_def acct100_def
      rate2_def)

lemma uint32_sub_add_mult:
  fixes a b r :: uint32
  shows "uint (b - a + a * r) = (uint b - uint a + uint a * uint r) mod 2 ^ 32"
proof -
  have "b - a + a * r = word_of_int (uint b - uint a + uint a * uint r)"
    by simp
  then have "uint (b - a + a * r) = take_bit 32 (uint b - uint a + uint a * uint r)"
    by (simp only: uint_word_of_int_eq) simp
  then show ?thesis
    by (simp add: take_bit_eq_mod)
qed

text \<open>
  C9, amended. \<open>convertPoints\<close> has no precondition that relates the amount to the
  balance: for every active account, registered brands, a positive amount and a
  configured rate the conversion succeeds, and the new balance is
  \<open>(balance - amount + amount * rate) mod 2^32\<close> over the integers, where the rate is
  the encrypted rate stored for the pair. Converting more than the balance wraps and
  does not fail.
\<close>

theorem convertPoints_wraps:
  assumes "isActive (accounts s sender)"
    and "supportedBrands s fromBrand" and "supportedBrands s toBrand"
    and "0 < amount"
    and "0 < publicRate (exchangeRates s (brandPairKey fromBrand toBrand))"
  shows "\<exists>s'. convertPoints sender now fromBrand toBrand amount s = Inr s'
           \<and> uint (decrypt (encryptedPoints (accounts s' sender))) =
               (uint (decrypt (encryptedPoints (accounts s sender))) - uint amount
                + uint amount
                  * uint (decrypt (encryptedRate
                       (exchangeRates s (brandPairKey fromBrand toBrand))))) mod 2 ^ 32"
  using assms
  by (simp add: convertPoints_def Let_def FHE_add_def FHE_sub_def FHE_mul_def
      FHE_fromU32_def uint32_sub_add_mult)

text \<open>
  With balance 100 and rate 2, converting 4294967295 points succeeds and leaves the
  balance 99.
\<close>

theorem convertPoints_wraps_witness:
  "\<exists>s'. convertPoints 1 50 ''A'' ''B'' 4294967295 s_rate = Inr s'
     \<and> uint (decrypt (encryptedPoints (accounts s_rate 1))) = 100
     \<and> uint (decrypt (encryptedPoints (accounts s' 1))) = 99"
proof -
  have a: "isActive (accounts s_rate 1)"
    by (simp add: s_rate_def s_brands_def s_account_def acct100_def)
  have f: "supportedBrands s_rate ''A''" and t: "supportedBrands s_rate ''B''"
    by (simp_all add: s_rate_def)
  have n: "(0::uint32) < 4294967295"
    by simp
  have r: "0 < publicRate (exchangeRates s_rate (brandPairKey ''A'' ''B''))"
    by (simp add: s_rate_def brandPairKey_def rate2_def)
  have b: "decrypt (encryptedPoints (accounts s_rate 1)) = 100"
    by (simp add: s_rate_def s_brands_def s_account_def acct100_def)
  have e: "decrypt (encryptedRate (exchangeRates s_rate (brandPairKey ''A'' ''B''))) = 2"
    by (simp add: s_rate_def brandPairKey_def rate2_def)
  from convertPoints_wraps [OF a f t n r, where now = 50] b e show ?thesis
    by simp
qed

subsection \<open>The rate key\<close>

text \<open>
  C6. The key under which \<open>convertPoints\<close> looks a rate up is the concatenation of the
  two brand identifiers around a hyphen, and it is not injective: the ordered pairs
  (\<open>a-b\<close>, \<open>c\<close>) and (\<open>a\<close>, \<open>b-c\<close>) differ, each has an identifier that contains the
  hyphen, both have the key \<open>a-b-c\<close>, and so in every storage both resolve to the same
  \<open>ExchangeRate\<close> entry.
\<close>

theorem brandPairKey_not_injective:
  "(''a-b'', ''c'') \<noteq> (''a'', ''b-c'')
   \<and> CHR ''-'' \<in> set ''a-b'' \<and> CHR ''-'' \<in> set ''b-c''
   \<and> brandPairKey ''a-b'' ''c'' = ''a-b-c''
   \<and> brandPairKey ''a'' ''b-c'' = ''a-b-c''
   \<and> exchangeRates s (brandPairKey ''a-b'' ''c'') = exchangeRates s (brandPairKey ''a'' ''b-c'')"
  by (simp add: brandPairKey_def)

subsection \<open>Authorisation\<close>

text \<open>
  C7. For a caller that is not the owner, \<open>addSupportedBrand\<close> and \<open>setExchangeRate\<close>
  revert with \<^verbatim>\<open>Not authorized\<close>, whatever their arguments, and the storage (the brand
  registry and the rate table with it) is the one before the call.
\<close>

theorem onlyOwner_rejects:
  assumes "sender \<noteq> owner s"
  shows "addSupportedBrand sender brandId s = Inl NotAuthorized
       \<and> setExchangeRate fromExternal sender now brandPair encRate rateProof pubRate s
           = Inl NotAuthorized
       \<and> storage_after s (addSupportedBrand sender brandId s) = s
       \<and> storage_after s
           (setExchangeRate fromExternal sender now brandPair encRate rateProof pubRate s) = s"
  using assms by (simp add: addSupportedBrand_def setExchangeRate_def storage_after_def)

theorem onlyOwner_rejects_witness:
  "addSupportedBrand 1 ''A'' s_account = Inl NotAuthorized
   \<and> setExchangeRate mock_fromExternal 1 40 ''A'' 2 True 2 s_account = Inl NotAuthorized
   \<and> storage_after s_account (addSupportedBrand 1 ''A'' s_account) = s_account
   \<and> storage_after s_account
       (setExchangeRate mock_fromExternal 1 40 ''A'' 2 True 2 s_account) = s_account"
proof -
  have h: "(1::address) \<noteq> owner s_account"
    by (simp add: s_account_def)
  show ?thesis
    by (rule onlyOwner_rejects [OF h])
qed

subsection \<open>Deactivation and reading a balance\<close>

text \<open>
  C8. \<open>deactivateAccount\<close> reverts with \<^verbatim>\<open>Account not active\<close> when the caller's account
  is not active. Otherwise it succeeds and clears the active flag of that account and
  nothing else: its encrypted balance, mirror and timestamp are the same, every other
  account is the same, and so are the rate table, the brand registry, the brand list,
  the owner and the event log.
\<close>

theorem deactivateAccount_frame:
  "(\<not> isActive (accounts s sender) \<longrightarrow> deactivateAccount sender s = Inl AccountNotActive)
   \<and> (isActive (accounts s sender) \<longrightarrow>
        (\<exists>s'. deactivateAccount sender s = Inr s'
           \<and> \<not> isActive (accounts s' sender)
           \<and> encryptedPoints (accounts s' sender) = encryptedPoints (accounts s sender)
           \<and> publicPoints (accounts s' sender) = publicPoints (accounts s sender)
           \<and> LoyaltyAccount.lastUpdated (accounts s' sender)
               = LoyaltyAccount.lastUpdated (accounts s sender)
           \<and> (\<forall>user. user \<noteq> sender \<longrightarrow> accounts s' user = accounts s user)
           \<and> exchangeRates s' = exchangeRates s
           \<and> supportedBrands s' = supportedBrands s
           \<and> brandList s' = brandList s
           \<and> owner s' = owner s
           \<and> emitted s' = emitted s))"
  by (simp add: deactivateAccount_def)

theorem deactivateAccount_frame_witness:
  "deactivateAccount 1 (constructor 9) = Inl AccountNotActive
   \<and> isActive (accounts s_account 1)
   \<and> (\<exists>s'. deactivateAccount 1 s_account = Inr s'
        \<and> \<not> isActive (accounts s' 1)
        \<and> encryptedPoints (accounts s' 1) = Cipher 100
        \<and> publicPoints (accounts s' 1) = 100
        \<and> LoyaltyAccount.lastUpdated (accounts s' 1) = 20
        \<and> accounts s' 2 = accounts s_account 2
        \<and> emitted s' = [AccountCreated 1 100])"
proof -
  have i: "\<not> isActive (accounts (constructor 9) 1)"
    by (simp add: constructor_def zeroAccount_def)
  have a: "isActive (accounts s_account 1)"
    by (simp add: s_account_def acct100_def)
  have v: "encryptedPoints (accounts s_account 1) = Cipher 100"
    "publicPoints (accounts s_account 1) = 100"
    "LoyaltyAccount.lastUpdated (accounts s_account 1) = 20"
    "emitted s_account = [AccountCreated 1 100]"
    by (simp_all add: s_account_def acct100_def)
  have d: "(2::address) \<noteq> 1"
    by simp
  from deactivateAccount_frame [where s = "constructor 9" and sender = 1] i
  have 1: "deactivateAccount 1 (constructor 9) = Inl AccountNotActive"
    by blast
  from deactivateAccount_frame [where s = s_account and sender = 1] a obtain s' where
    s': "deactivateAccount 1 s_account = Inr s'" "\<not> isActive (accounts s' 1)"
      "encryptedPoints (accounts s' 1) = encryptedPoints (accounts s_account 1)"
      "publicPoints (accounts s' 1) = publicPoints (accounts s_account 1)"
      "LoyaltyAccount.lastUpdated (accounts s' 1)
         = LoyaltyAccount.lastUpdated (accounts s_account 1)"
      "\<forall>user. user \<noteq> 1 \<longrightarrow> accounts s' user = accounts s_account user"
      "emitted s' = emitted s_account"
    by blast
  from s'(6) d have o: "accounts s' 2 = accounts s_account 2"
    by blast
  from 1 a s' v o show ?thesis
    by auto
qed

text \<open>
  C10. \<open>getAccountBalance\<close> reverts with \<^verbatim>\<open>Account not found\<close> for every user whose
  account is not active. That includes an account that was deactivated: its record is
  still there with the balance and the mirror it had, and the getter does not give them.
\<close>

theorem getAccountBalance_inactive:
  "(\<not> isActive (accounts s user) \<longrightarrow> getAccountBalance user s = Inl AccountNotFound)
   \<and> (deactivateAccount user s = Inr s' \<longrightarrow>
        getAccountBalance user s' = Inl AccountNotFound
        \<and> encryptedPoints (accounts s' user) = encryptedPoints (accounts s user)
        \<and> publicPoints (accounts s' user) = publicPoints (accounts s user))"
  by (auto simp add: getAccountBalance_def deactivateAccount_def split: if_splits)

theorem getAccountBalance_inactive_witness:
  "getAccountBalance 2 s_account = Inl AccountNotFound
   \<and> getAccountBalance 1 s_account = Inr (Cipher 100, 100)
   \<and> deactivateAccount 1 s_account = Inr s_deactivated
   \<and> getAccountBalance 1 s_deactivated = Inl AccountNotFound
   \<and> encryptedPoints (accounts s_deactivated 1) = Cipher 100
   \<and> publicPoints (accounts s_deactivated 1) = 100"
proof -
  have n: "\<not> isActive (accounts s_account 2)"
    by (simp add: s_account_def zeroAccount_def)
  have g: "getAccountBalance 1 s_account = Inr (Cipher 100, 100)"
    by (simp add: getAccountBalance_def s_account_def acct100_def)
  have v: "encryptedPoints (accounts s_account 1) = Cipher 100"
    "publicPoints (accounts s_account 1) = 100"
    by (simp_all add: s_account_def acct100_def)
  have h: "deactivateAccount 1 s_account = Inr s_deactivated"
    by (rule reach_s_deactivated)
  from getAccountBalance_inactive [where s = s_account and user = 2] n
  have 1: "getAccountBalance 2 s_account = Inl AccountNotFound"
    by blast
  from getAccountBalance_inactive [where s = s_account and s' = s_deactivated and user = 1] h
  have 2: "getAccountBalance 1 s_deactivated = Inl AccountNotFound"
    "encryptedPoints (accounts s_deactivated 1) = encryptedPoints (accounts s_account 1)"
    "publicPoints (accounts s_deactivated 1) = publicPoints (accounts s_account 1)"
    by blast+
  from 1 g h 2 v show ?thesis
    by simp
qed

subsection \<open>Verified records\<close>

lemma bridge_step_verified:
  "state (b recordId) = Verified \<Longrightarrow> bridge_step verifier x b recordId = b recordId"
  by (cases x) (auto simp add: requestDecryption_def verifyDecryption_def)

lemma bridge_run_verified:
  "state (b recordId) = Verified \<Longrightarrow> bridge_run verifier xs b recordId = b recordId"
proof (induction xs arbitrary: b)
  case Nil
  then show ?case by simp
next
  case (Cons x xs)
  have same: "bridge_step verifier x b recordId = b recordId"
    using Cons.prems by (rule bridge_step_verified)
  then have "state (bridge_step verifier x b recordId) = Verified"
    using Cons.prems by simp
  then have "bridge_run verifier xs (bridge_step verifier x b) recordId
      = bridge_step verifier x b recordId"
    by (rule Cons.IH)
  with same show ?case by simp
qed

text \<open>
  C5. Once a record is \<open>Verified\<close>, \<open>verifyDecryption\<close> for it returns the stored
  cleartext and the bridge unchanged, whatever values and proof are supplied. No
  sequence of requests and verifications, for this or any other record, with valid or
  invalid proofs, takes the record out of \<open>Verified\<close> or changes its cleartext, and a
  \<open>verifyDecryption\<close> after any such sequence still returns that cleartext.
\<close>

theorem verified_is_final:
  assumes "state (b recordId) = Verified"
  shows "verifyDecryption verifier recordId vals proof b = Inr (cleartext (b recordId), b)
       \<and> state (bridge_run verifier ops b recordId) = Verified
       \<and> cleartext (bridge_run verifier ops b recordId) = cleartext (b recordId)
       \<and> verifyDecryption verifier recordId vals' proof' (bridge_run verifier ops b)
           = Inr (cleartext (b recordId), bridge_run verifier ops b)"
  using assms bridge_run_verified [where b = b and recordId = recordId, OF assms, of verifier ops]
  by (simp add: verifyDecryption_def)

theorem verified_is_final_witness:
  "state (verified_bridge 0) = Verified
   \<and> verifyDecryption mock_verifier 0 [7] False verified_bridge = Inr ([150], verified_bridge)
   \<and> cleartext (bridge_run mock_verifier
        [Request 0 2 [Cipher 8], Verify 0 [8] True, Verify 1 [] True] verified_bridge 0) = [150]"
proof -
  have h: "state (verified_bridge 0) = Verified"
    by (simp add: verified_bridge_def)
  have c: "cleartext (verified_bridge 0) = [150]"
    by (simp add: verified_bridge_def)
  from verified_is_final [where b = verified_bridge and recordId = 0, OF h,
      of mock_verifier "[7]" False
      "[Request 0 2 [Cipher 8], Verify 0 [8] True, Verify 1 [] True]"] h c
  show ?thesis by simp
qed

end
